theory Spec2Isabelle
  imports Main "HOL-Library.Sublist"
begin

section \<open>Python strings\<close>

text \<open>
  A Python \<open>str\<close> is a sequence of code points. It is modelled as a \<open>string\<close>, each
  \<open>char\<close> read as one code point in the range U+0000..U+00FF; text with code points
  beyond U+00FF is outside the model.
\<close>

text \<open>
  \<open>needle in haystack\<close> on two strings: \<open>needle\<close> occurs in \<open>haystack\<close> as a
  contiguous run of characters, compared character by character (case-sensitive).
  The empty needle occurs in every string.
\<close>

fun str_in :: "string \<Rightarrow> string \<Rightarrow> bool" where
  "str_in needle [] = (needle = [])"
| "str_in needle (c # cs) = (prefix needle (c # cs) \<or> str_in needle cs)"

text \<open>
  \<open>str.lower()\<close>. On U+0000..U+00FF the upper-case letters are A..Z (65..90) and
  the accented capitals 192..222 without the multiplication sign (215); each is
  mapped to the code point 32 above it, every other character is kept.
\<close>

definition lower_char :: "char \<Rightarrow> char" where
  "lower_char c =
     (let n = (of_char c :: nat)
      in if (65 \<le> n \<and> n \<le> 90) \<or> (192 \<le> n \<and> n \<le> 222 \<and> n \<noteq> 215)
         then char_of (n + 32) else c)"

definition lower :: "string \<Rightarrow> string" where
  "lower s = map lower_char s"

text \<open>
  \<open>str.title()\<close>: a character is put in title case when the character before it
  is not cased (or there is none before it) and in lower case otherwise. On
  U+0000..U+00FF the cased characters are the letters A..Z and a..z, the ordinal
  indicators (170, 186), the micro sign (181) and the letters 192..255 without the
  multiplication and division signs (215, 247). The title case of a lower-case
  letter a..z or 224..254 is the code point 32 below it, that of the sharp s (223)
  is the two characters \<open>Ss\<close>, and every other character is its own, with two
  exceptions: the title-case forms of the micro sign and of 255 are U+039C and
  U+0178, beyond the code points of the model, which keeps these two characters
  as they are.
\<close>

definition is_cased :: "char \<Rightarrow> bool" where
  "is_cased c =
     (let n = (of_char c :: nat)
      in (65 \<le> n \<and> n \<le> 90) \<or> (97 \<le> n \<and> n \<le> 122)
         \<or> n = 170 \<or> n = 181 \<or> n = 186
         \<or> (192 \<le> n \<and> n \<le> 255 \<and> n \<noteq> 215 \<and> n \<noteq> 247))"

definition title_char :: "char \<Rightarrow> string" where
  "title_char c =
     (let n = (of_char c :: nat)
      in if (97 \<le> n \<and> n \<le> 122) \<or> (224 \<le> n \<and> n \<le> 254 \<and> n \<noteq> 247)
         then [char_of (n - 32)]
         else if n = 223 then ''Ss''
         else [c])"

fun title_from :: "bool \<Rightarrow> string \<Rightarrow> string" where
  "title_from previous_is_cased [] = []"
| "title_from previous_is_cased (c # cs) =
     (if previous_is_cased then [lower_char c] else title_char c)
       @ title_from (is_cased c) cs"

definition title :: "string \<Rightarrow> string" where
  "title s = title_from False s"

text \<open>\<open>s.replace(old, new)\<close> for one-character \<open>old\<close> and \<open>new\<close>.\<close>

definition replace_char :: "char \<Rightarrow> char \<Rightarrow> string \<Rightarrow> string" where
  "replace_char old new s = map (\<lambda>c. if c = old then new else c) s"

text \<open>\<open>sep.join(parts)\<close>.\<close>

fun join :: "string \<Rightarrow> string list \<Rightarrow> string" where
  "join sep [] = []"
| "join sep [p] = p"
| "join sep (p # q # ps) = p @ sep @ join sep (q # ps)"

section \<open>The policy store\<close>

text \<open>
  One value of \<open>MOCK_POLICY_DATA\<close>: a dict with six string keys. The coverage dict
  is an association list in insertion order, the order \<open>.items()\<close> yields.
\<close>

record policy =
  customer_name :: string
  policy_type :: string
  coverage :: "(string \<times> string) list"
  premium :: string
  deductible :: string
  exclusions :: string

type_synonym policy_store = "(string \<times> policy) list"

definition jane_doe :: policy where
  "jane_doe =
     \<lparr> customer_name = ''Jane Doe'',
       policy_type = ''Auto Insurance'',
       coverage =
         [(''collision'', ''Up to $50,000''),
          (''comprehensive'', ''Up to $25,000''),
          (''roadside_assistance'', ''Included'')],
       premium = ''$120/month'',
       deductible = ''$500'',
       exclusions = ''Off-road driving and commercial use.'' \<rparr>"

definition john_smith :: policy where
  "john_smith =
     \<lparr> customer_name = ''John Smith'',
       policy_type = ''Home Insurance'',
       coverage =
         [(''fire'', ''Full replacement value''),
          (''theft'', ''Up to $10,000''),
          (''natural_disaster'', ''Not included (separate policy)'')],
       premium = ''$85/month'',
       deductible = ''$1,000'',
       exclusions = ''Damage from floods and earthquakes.'' \<rparr>"

text \<open>
  The module global, in insertion order. The functions below read it; it is passed
  to them as their first argument \<open>data\<close>.
\<close>

definition MOCK_POLICY_DATA :: policy_store where
  "MOCK_POLICY_DATA = [(''policy_1001'', jane_doe), (''policy_1002'', john_smith)]"

text \<open>A well-formed policy dict that is not a value of the store.\<close>

definition unknown_policy :: policy where
  "unknown_policy =
     \<lparr> customer_name = ''Alex Roe'',
       policy_type = ''Travel Insurance'',
       coverage = [(''baggage'', ''Up to $2,000'')],
       premium = ''$15/month'',
       deductible = ''$100'',
       exclusions = ''Extreme sports.'' \<rparr>"

text \<open>
  \<open>==\<close> on two dicts with string values: the same number of entries, and every
  entry of the left one is found under its key in the right one. The order of the
  entries plays no role.
\<close>

definition dict_eq :: "(string \<times> string) list \<Rightarrow> (string \<times> string) list \<Rightarrow> bool" where
  "dict_eq a b =
     (length a = length b \<and> list_all (\<lambda>(k, v). map_of b k = Some v) a)"

text \<open>\<open>==\<close> on two policy dicts: field by field, the coverage as a dict.\<close>

definition policy_eq :: "policy \<Rightarrow> policy \<Rightarrow> bool" where
  "policy_eq v p =
     (customer_name v = customer_name p \<and> policy_type v = policy_type p \<and>
      dict_eq (coverage v) (coverage p) \<and> premium v = premium p \<and>
      deductible v = deductible p \<and> exclusions v = exclusions p)"

section \<open>Retrieval\<close>

text \<open>
  \<open>retrieve_policy_info\<close>: the \<open>for\<close> loop over \<open>MOCK_POLICY_DATA.items()\<close>, with
  \<open>retrieved_info\<close> the list built so far.
\<close>

fun retrieve_loop :: "string \<Rightarrow> policy_store \<Rightarrow> policy list \<Rightarrow> policy list" where
  "retrieve_loop query [] retrieved_info = retrieved_info"
| "retrieve_loop query ((policy_id, policy_details) # items) retrieved_info =
     (if str_in policy_id query
         \<or> str_in (lower (customer_name policy_details)) (lower query)
      then retrieve_loop query items (retrieved_info @ [policy_details])
      else retrieve_loop query items retrieved_info)"

definition retrieve_policy_info :: "policy_store \<Rightarrow> string \<Rightarrow> policy list" where
  "retrieve_policy_info data query = retrieve_loop query data []"

text \<open>
  The retriever in the words of the specification: the records of the store, in the
  store's order, whose identifier occurs in the query as a contiguous substring or
  whose customer name does so once both are lowercased.
\<close>

definition occurs_in :: "string \<Rightarrow> string \<Rightarrow> bool" where
  "occurs_in needle haystack = (\<exists>before after. haystack = before @ needle @ after)"

definition retrieve_spec :: "policy_store \<Rightarrow> string \<Rightarrow> policy list" where
  "retrieve_spec store q =
     map snd (filter (\<lambda>(identifier, record).
        occurs_in identifier q \<or> occurs_in (lower (customer_name record)) (lower q)) store)"

section \<open>Response generation\<close>

datatype error = IndexError

definition apology :: string where
  "apology =
     ''I'm sorry, I couldn't find any relevant policy information for that query. ''
     @ ''Please check the policy number or customer name.''"

text \<open>
  The list comprehension of the reverse lookup: the keys of the store, in its
  order, whose record is \<open>==\<close> to \<open>policy\<close>.
\<close>

definition matching_ids :: "policy_store \<Rightarrow> policy \<Rightarrow> string list" where
  "matching_ids data policy = [k. (k, v) \<leftarrow> data, policy_eq v policy]"

text \<open>The four templates, one per branch of the \<open>if\<close>/\<open>elif\<close> chain.\<close>

definition coverage_line :: "string \<times> string \<Rightarrow> string" where
  "coverage_line = (\<lambda>(key, value).
     ''- '' @ title (replace_char (CHR ''_'') (CHR '' '') key) @ '': '' @ value)"

definition coverage_response :: "string \<Rightarrow> policy \<Rightarrow> string" where
  "coverage_response policy_id policy =
     (let coverage_list = map coverage_line (coverage policy);
          coverage_text = join ''\<newline>'' coverage_list
      in ''Hello, the policy details for '' @ customer_name policy
         @ '' (Policy ID: '' @ policy_id
         @ '') indicate the following coverage:\<newline>\<newline>'' @ coverage_text)"

definition premium_response :: "string \<Rightarrow> policy \<Rightarrow> string" where
  "premium_response policy_id policy =
     ''The monthly premium for '' @ customer_name policy
     @ [CHR 0x27] @ ''s policy (Policy ID: '' @ policy_id
     @ '') is '' @ premium policy @ ''.''"

definition deductible_response :: "string \<Rightarrow> policy \<Rightarrow> string" where
  "deductible_response policy_id policy =
     ''The deductible for '' @ customer_name policy
     @ [CHR 0x27] @ ''s policy (Policy ID: '' @ policy_id
     @ '') is '' @ deductible policy @ ''.''"

definition fallback_response :: "string \<Rightarrow> policy \<Rightarrow> string" where
  "fallback_response policy_id policy =
     ''Based on the information for '' @ customer_name policy
     @ '' (Policy ID: '' @ policy_id
     @ ''), I can confirm that the policy type is '' @ [CHR 0x27]
     @ policy_type policy @ [CHR 0x27] @ ''. How can I assist further?''"

text \<open>The chain itself, entered once \<open>policy\<close> and \<open>policy_id\<close> are known.\<close>

definition response_text :: "string \<Rightarrow> string \<Rightarrow> policy \<Rightarrow> string" where
  "response_text query policy_id policy =
     (if str_in ''coverage'' (lower query) then coverage_response policy_id policy
      else if str_in ''premium'' (lower query) then premium_response policy_id policy
      else if str_in ''deductible'' (lower query) then deductible_response policy_id policy
      else fallback_response policy_id policy)"

text \<open>
  \<open>generate_response\<close>. Indexing the comprehension with \<open>[0]\<close> raises
  \<open>IndexError\<close> when no record of the store equals \<open>policy\<close>. The local
  \<open>customer_name\<close> is the field of \<open>policy\<close>, read in the templates.
\<close>

definition generate_response :: "policy_store \<Rightarrow> string \<Rightarrow> policy list \<Rightarrow> error + string" where
  "generate_response data query context =
     (case context of
        [] \<Rightarrow> Inr apology
      | policy # _ \<Rightarrow>
          (case matching_ids data policy of
             [] \<Rightarrow> Inl IndexError
           | policy_id # _ \<Rightarrow> Inr (response_text query policy_id policy)))"

section \<open>The pipeline with identifiers carried along\<close>

text \<open>
  The design the specification proposes in place of the reverse lookup: retrieval
  yields (identifier, record) pairs and the responder reads the identifier of the
  first pair.
\<close>

definition retrieve_pairs :: "policy_store \<Rightarrow> string \<Rightarrow> (string \<times> policy) list" where
  "retrieve_pairs store q =
     filter (\<lambda>(identifier, record).
        str_in identifier q \<or> str_in (lower (customer_name record)) (lower q)) store"

definition respond_pairs :: "string \<Rightarrow> (string \<times> policy) list \<Rightarrow> string" where
  "respond_pairs q matches =
     (case matches of
        [] \<Rightarrow> apology
      | (identifier, record) # _ \<Rightarrow> response_text q identifier record)"

section \<open>Dicts and lists as objects\<close>

text \<open>
  In the sections above the store is a value and a list of records is a list of
  values. A Python dict or list is an object that can be changed in place, and
  \<open>retrieved_info.append(policy_details)\<close> stores a reference to the very dict of
  the store. To state what the two functions change, this section runs the same
  code on a heap: policy dicts and lists are objects at addresses, strings are
  values. A policy dict with its nested coverage dict is one object. Every address
  holds an object of each kind; the addresses below \<open>lim\<close> are the allocated ones.
  \<open>policy_data\<close> is the dict bound to the module global \<open>MOCK_POLICY_DATA\<close>: its
  keys with the addresses of their policy dicts.
\<close>

type_synonym addr = nat

record pyheap =
  policy_data :: "(string \<times> addr) list"
  policies :: "addr \<Rightarrow> policy"
  ref_lists :: "addr \<Rightarrow> addr list"
  str_lists :: "addr \<Rightarrow> string list"
  lim :: addr

text \<open>
  A list display or comprehension makes a new list object; \<open>l.append(x)\<close> changes
  the list object \<open>l\<close> in place.
\<close>

definition new_ref_list :: "addr list \<Rightarrow> pyheap \<Rightarrow> addr \<times> pyheap" where
  "new_ref_list xs h =
     (lim h, h\<lparr>ref_lists := (ref_lists h)(lim h := xs), lim := Suc (lim h)\<rparr>)"

definition new_str_list :: "string list \<Rightarrow> pyheap \<Rightarrow> addr \<times> pyheap" where
  "new_str_list xs h =
     (lim h, h\<lparr>str_lists := (str_lists h)(lim h := xs), lim := Suc (lim h)\<rparr>)"

definition list_append :: "addr \<Rightarrow> addr \<Rightarrow> pyheap \<Rightarrow> pyheap" where
  "list_append l x h = h\<lparr>ref_lists := (ref_lists h)(l := ref_lists h l @ [x])\<rparr>"

text \<open>
  \<open>retrieve_policy_info\<close> on the heap: \<open>retrieved_info\<close> is the address of the new
  list, the loop appends the addresses of the matching policy dicts to it, and the
  function returns that address.
\<close>

fun retrieve_loop_heap :: "string \<Rightarrow> (string \<times> addr) list \<Rightarrow> addr \<Rightarrow> pyheap \<Rightarrow> pyheap" where
  "retrieve_loop_heap query [] retrieved_info h = h"
| "retrieve_loop_heap query ((policy_id, policy_details) # items) retrieved_info h =
     (if str_in policy_id query
         \<or> str_in (lower (customer_name (policies h policy_details))) (lower query)
      then retrieve_loop_heap query items retrieved_info
             (list_append retrieved_info policy_details h)
      else retrieve_loop_heap query items retrieved_info h)"

definition retrieve_policy_info_heap :: "string \<Rightarrow> pyheap \<Rightarrow> addr \<times> pyheap" where
  "retrieve_policy_info_heap query h =
     (let (retrieved_info, h1) = new_ref_list [] h
      in (retrieved_info, retrieve_loop_heap query (policy_data h1) retrieved_info h1))"

text \<open>
  \<open>generate_response\<close> on the heap: \<open>context\<close> is the address of a list of
  addresses of policy dicts, \<open>policy\<close> the first of them. The two comprehensions
  make new lists of strings; \<open>v == policy\<close> compares the two dicts by content.
\<close>

definition generate_response_heap ::
  "string \<Rightarrow> addr \<Rightarrow> pyheap \<Rightarrow> (error + string) \<times> pyheap" where
  "generate_response_heap query context h =
     (case ref_lists h context of
        [] \<Rightarrow> (Inr apology, h)
      | policy # _ \<Rightarrow>
          (let (ids, h1) =
                 new_str_list
                   [k. (k, v) \<leftarrow> policy_data h, policy_eq (policies h v) (policies h policy)] h
           in case str_lists h1 ids of
                [] \<Rightarrow> (Inl IndexError, h1)
              | policy_id # _ \<Rightarrow>
                  if str_in ''coverage'' (lower query) then
                    (let (coverage_list, h2) =
                           new_str_list (map coverage_line (coverage (policies h1 policy))) h1;
                         coverage_text = join ''\<newline>'' (str_lists h2 coverage_list)
                     in (Inr (''Hello, the policy details for ''
                              @ customer_name (policies h2 policy)
                              @ '' (Policy ID: '' @ policy_id
                              @ '') indicate the following coverage:\<newline>\<newline>''
                              @ coverage_text), h2))
                  else if str_in ''premium'' (lower query) then
                    (Inr (premium_response policy_id (policies h1 policy)), h1)
                  else if str_in ''deductible'' (lower query) then
                    (Inr (deductible_response policy_id (policies h1 policy)), h1)
                  else (Inr (fallback_response policy_id (policies h1 policy)), h1)))"

text \<open>
  Reading the heap back: the store as a value, the records a list object refers to,
  and the addresses the retrieval loop selects.
\<close>

definition store_of :: "pyheap \<Rightarrow> policy_store" where
  "store_of h = map (\<lambda>(k, a). (k, policies h a)) (policy_data h)"

definition records_of :: "pyheap \<Rightarrow> addr \<Rightarrow> policy list" where
  "records_of h l = map (policies h) (ref_lists h l)"

definition matched_refs :: "string \<Rightarrow> pyheap \<Rightarrow> (string \<times> addr) list \<Rightarrow> addr list" where
  "matched_refs q h items =
     map snd (filter (\<lambda>(k, a).
        str_in k q \<or> str_in (lower (customer_name (policies h a))) (lower q)) items)"

text \<open>The heap after the module has been loaded: the two policy dicts and the global.\<close>

definition initial_heap :: pyheap where
  "initial_heap =
     \<lparr> policy_data = [(''policy_1001'', 0), (''policy_1002'', 1)],
       policies = (\<lambda>_. unknown_policy)(0 := jane_doe, 1 := john_smith),
       ref_lists = (\<lambda>_. []),
       str_lists = (\<lambda>_. []),
       lim = 2 \<rparr>"

section \<open>Facts about strings\<close>

lemma str_in_iff_sublist: "str_in needle haystack \<longleftrightarrow> sublist needle haystack"
  by (induction haystack) (auto simp: sublist_Cons_right)

lemma str_in_iff_occurs: "str_in needle haystack \<longleftrightarrow> occurs_in needle haystack"
  by (simp add: str_in_iff_sublist sublist_def occurs_in_def)

section \<open>Facts about retrieval\<close>

lemma retrieve_loop_filter:
  "retrieve_loop query items acc =
     acc @ map snd (filter (\<lambda>(policy_id, policy_details).
        str_in policy_id query
          \<or> str_in (lower (customer_name policy_details)) (lower query)) items)"
  by (induction query items acc rule: retrieve_loop.induct) simp_all

lemma retrieve_policy_info_filter:
  "retrieve_policy_info data query =
     map snd (filter (\<lambda>(policy_id, policy_details).
        str_in policy_id query
          \<or> str_in (lower (customer_name policy_details)) (lower query)) data)"
  by (simp add: retrieve_policy_info_def retrieve_loop_filter)

lemma lower_jane: "lower (customer_name jane_doe) = ''jane doe''"
  by code_simp

lemma lower_john: "lower (customer_name john_smith) = ''john smith''"
  by code_simp

lemma retrieve_mock:
  "retrieve_policy_info MOCK_POLICY_DATA q =
     (if str_in ''policy_1001'' q \<or> str_in ''jane doe'' (lower q) then [jane_doe] else [])
     @ (if str_in ''policy_1002'' q \<or> str_in ''john smith'' (lower q) then [john_smith] else [])"
  by (simp add: retrieve_policy_info_filter MOCK_POLICY_DATA_def lower_jane lower_john)

lemma set_mock: "snd ` set MOCK_POLICY_DATA = {jane_doe, john_smith}"
  by (simp add: MOCK_POLICY_DATA_def)

section \<open>Facts about the reverse lookup\<close>

lemma matching_ids_unknown: "matching_ids MOCK_POLICY_DATA unknown_policy = []"
  by code_simp

lemma matching_ids_empty_iff:
  "matching_ids data policy = [] \<longleftrightarrow> (\<forall>(k, v) \<in> set data. \<not> policy_eq v policy)"
  by (induction data) (auto simp: matching_ids_def)

lemma matching_ids_mock:
  assumes "(k, v) \<in> set MOCK_POLICY_DATA" and "policy_eq v policy"
  shows "matching_ids MOCK_POLICY_DATA policy = [k]"
proof -
  from assms(1) consider "k = ''policy_1001''" "v = jane_doe"
    | "k = ''policy_1002''" "v = john_smith"
    by (auto simp: MOCK_POLICY_DATA_def)
  then show ?thesis
  proof cases
    case 1
    with assms(2) have "customer_name policy = ''Jane Doe''"
      by (simp add: policy_eq_def jane_doe_def)
    then have "\<not> policy_eq john_smith policy"
      by (simp add: policy_eq_def john_smith_def)
    with 1 assms(2) show ?thesis
      by (simp add: matching_ids_def MOCK_POLICY_DATA_def)
  next
    case 2
    with assms(2) have "customer_name policy = ''John Smith''"
      by (simp add: policy_eq_def john_smith_def)
    then have "\<not> policy_eq jane_doe policy"
      by (simp add: policy_eq_def jane_doe_def)
    with 2 assms(2) show ?thesis
      by (simp add: matching_ids_def MOCK_POLICY_DATA_def)
  qed
qed

text \<open>
  A policy that equals a record of the store has that record's coverage keys, so on
  the two-record store \<open>title\<close> is only ever applied to its ASCII category names.
\<close>

lemma dict_eq_keys3:
  assumes "dict_eq [(a, x), (b, y), (c, z)] d" and "a \<noteq> b" and "a \<noteq> c" and "b \<noteq> c"
  shows "set (map fst d) = {a, b, c}"
proof -
  from assms(1) have len: "length d = 3"
    and "map_of d a = Some x" and "map_of d b = Some y" and "map_of d c = Some z"
    by (simp_all add: dict_eq_def)
  then have sub: "{a, b, c} \<subseteq> set (map fst d)"
    by (auto dest!: map_of_SomeD intro: rev_image_eqI)
  have "card {a, b, c} = 3"
    using assms(2-4) by simp
  moreover have "card (set (map fst d)) \<le> 3"
    using len card_length [of "map fst d"] by simp
  ultimately have "card (set (map fst d)) \<le> card {a, b, c}" by simp
  with sub show ?thesis
    by (metis List.finite_set card_seteq)
qed

lemma coverage_keys_of_matched_policy:
  assumes "(k, v) \<in> set MOCK_POLICY_DATA" and "policy_eq v policy"
  shows "set (map fst (coverage policy)) = set (map fst (coverage v))"
proof -
  from assms(2) have d: "dict_eq (coverage v) (coverage policy)"
    by (simp add: policy_eq_def)
  from assms(1) consider "v = jane_doe" | "v = john_smith"
    by (auto simp: MOCK_POLICY_DATA_def)
  then show ?thesis
  proof cases
    case 1
    with d show ?thesis
      using dict_eq_keys3 [of "''collision''" _ "''comprehensive''" _
          "''roadside_assistance''" _ "coverage policy"]
      by (simp add: jane_doe_def)
  next
    case 2
    with d show ?thesis
      using dict_eq_keys3 [of "''fire''" _ "''theft''" _
          "''natural_disaster''" _ "coverage policy"]
      by (simp add: john_smith_def)
  qed
qed

lemma policy_eq_jane: "policy_eq jane_doe jane_doe"
  by code_simp

lemma policy_eq_john: "policy_eq john_smith john_smith"
  by code_simp

lemma mock_cases:
  assumes "policy \<in> snd ` set MOCK_POLICY_DATA"
  obtains k where "(k, policy) \<in> set MOCK_POLICY_DATA" and "policy_eq policy policy"
  using assms policy_eq_jane policy_eq_john by (auto simp: MOCK_POLICY_DATA_def)

section \<open>Facts about response generation\<close>

lemma generate_response_Nil: "generate_response data q [] = Inr apology"
  by (simp add: generate_response_def)

lemma generate_response_Cons:
  "generate_response data q (policy # others) =
     (case matching_ids data policy of
        [] \<Rightarrow> Inl IndexError
      | policy_id # _ \<Rightarrow> Inr (response_text q policy_id policy))"
  by (simp add: generate_response_def)

lemma generate_response_mock:
  assumes "(k, v) \<in> set MOCK_POLICY_DATA" and "policy_eq v policy"
  shows "generate_response MOCK_POLICY_DATA q (policy # others)
           = Inr (response_text q k policy)"
  by (simp add: generate_response_Cons matching_ids_mock [OF assms])


lemma coverage_not_premium:
  "coverage_response policy_id policy \<noteq> premium_response policy_id' policy'"
  by (simp add: coverage_response_def premium_response_def Let_def)

section \<open>Facts about the pipeline with identifiers\<close>

lemma retrieve_pairs_snd:
  "map snd (retrieve_pairs store q) = retrieve_policy_info store q"
  by (simp add: retrieve_pairs_def retrieve_policy_info_filter)

lemma retrieve_pairs_mock:
  "retrieve_pairs MOCK_POLICY_DATA q =
     (if str_in ''policy_1001'' q \<or> str_in ''jane doe'' (lower q)
      then [(''policy_1001'', jane_doe)] else [])
     @ (if str_in ''policy_1002'' q \<or> str_in ''john smith'' (lower q)
        then [(''policy_1002'', john_smith)] else [])"
  by (simp add: retrieve_pairs_def MOCK_POLICY_DATA_def lower_jane lower_john)

lemma retrieve_pairs_subset: "set (retrieve_pairs store q) \<subseteq> set store"
  by (auto simp: retrieve_pairs_def)

lemma retrieve_subset: "set (retrieve_policy_info store q) \<subseteq> snd ` set store"
  by (auto simp: retrieve_policy_info_filter)

section \<open>Facts about the heap\<close>

lemma list_append_fields [simp]:
  "policy_data (list_append l x h) = policy_data h"
  "policies (list_append l x h) = policies h"
  "str_lists (list_append l x h) = str_lists h"
  "lim (list_append l x h) = lim h"
  "ref_lists (list_append l x h) = (ref_lists h)(l := ref_lists h l @ [x])"
  by (simp_all add: list_append_def)

lemma retrieve_loop_heap_fields:
  "policy_data (retrieve_loop_heap q items r h) = policy_data h"
  "policies (retrieve_loop_heap q items r h) = policies h"
  "str_lists (retrieve_loop_heap q items r h) = str_lists h"
  "lim (retrieve_loop_heap q items r h) = lim h"
  by (induction q items r h rule: retrieve_loop_heap.induct) simp_all

lemma retrieve_loop_heap_list_at:
  "ref_lists (retrieve_loop_heap q items r h) a =
     (if a = r then ref_lists h r @ matched_refs q h items else ref_lists h a)"
  by (induction q items r h rule: retrieve_loop_heap.induct)
     (auto simp: matched_refs_def)

lemma retrieve_loop_heap_lists:
  "ref_lists (retrieve_loop_heap q items r h) =
     (ref_lists h)(r := ref_lists h r @ matched_refs q h items)"
  by (rule ext) (simp add: retrieve_loop_heap_list_at)

lemma retrieve_policy_info_heap_result:
  assumes "retrieve_policy_info_heap q h = (r, h')"
  shows "r = lim h" and "lim h' = Suc (lim h)"
    and "policy_data h' = policy_data h" and "policies h' = policies h"
    and "str_lists h' = str_lists h"
    and "ref_lists h' = (ref_lists h)(lim h := matched_refs q h (policy_data h))"
  using assms
  by (auto simp: retrieve_policy_info_heap_def new_ref_list_def retrieve_loop_heap_fields
      retrieve_loop_heap_lists matched_refs_def)

lemma matched_refs_cong:
  "policies h' = policies h \<Longrightarrow> matched_refs q h' items = matched_refs q h items"
  by (simp add: matched_refs_def)

lemma matched_refs_records:
  "map (policies h) (matched_refs q h items) =
     retrieve_policy_info (map (\<lambda>(k, a). (k, policies h a)) items) q"
  by (induction items) (auto simp: matched_refs_def retrieve_policy_info_filter)

lemma generate_response_heap_fields:
  assumes "generate_response_heap q c h = (result, h')"
  shows "policy_data h' = policy_data h" and "policies h' = policies h"
    and "ref_lists h' = ref_lists h"
  using assms
  by (auto simp: generate_response_heap_def new_str_list_def Let_def
      split: list.splits if_splits)

lemma matching_ids_heap:
  "[k. (k, v) \<leftarrow> items, policy_eq (policies h v) p] =
     matching_ids (map (\<lambda>(k, a). (k, policies h a)) items) p"
  by (induction items) (auto simp: matching_ids_def)

lemma generate_response_heap_result:
  "fst (generate_response_heap q c h) = generate_response (store_of h) q (records_of h c)"
  by (auto simp: generate_response_heap_def generate_response_def new_str_list_def Let_def
      records_of_def store_of_def matching_ids_heap response_text_def coverage_response_def
      split: list.splits)

lemma matched_refs_subset: "set (matched_refs q h items) \<subseteq> snd ` set items"
  by (auto simp: matched_refs_def)

lemma store_of_initial_heap: "store_of initial_heap = MOCK_POLICY_DATA"
  by (simp add: store_of_def initial_heap_def MOCK_POLICY_DATA_def)

section \<open>The claims\<close>

text \<open>
  C1. For every query \<open>q\<close>, retrieval returns exactly the records of the store, in
  the store's order, whose identifier occurs in \<open>q\<close> as a contiguous substring
  (case-sensitive) or whose customer name occurs in \<open>q\<close> once both are lowercased
  (\<open>retrieve_spec\<close>). On the two-record store: a query that contains
  \<open>policy_1001\<close> yields a result whose first element is the record stored under
  \<open>policy_1001\<close>; the empty query yields the empty list; and on any store a query
  that matches no record yields the empty list.
\<close>

theorem retrieve_policy_info_meets_spec:
  "retrieve_policy_info store q = retrieve_spec store q
   \<and> (occurs_in ''policy_1001'' q \<longrightarrow>
        (\<exists>rest. retrieve_policy_info MOCK_POLICY_DATA q = jane_doe # rest))
   \<and> map_of MOCK_POLICY_DATA ''policy_1001'' = Some jane_doe
   \<and> retrieve_policy_info MOCK_POLICY_DATA [] = []
   \<and> ((\<forall>(identifier, record) \<in> set store.
          \<not> occurs_in identifier q
          \<and> \<not> occurs_in (lower (customer_name record)) (lower q)) \<longrightarrow>
        retrieve_policy_info store q = [])"
proof -
  have spec: "retrieve_policy_info store q = retrieve_spec store q"
    by (simp add: retrieve_policy_info_filter retrieve_spec_def str_in_iff_occurs)
  have first: "\<exists>rest. retrieve_policy_info MOCK_POLICY_DATA q = jane_doe # rest"
    if "occurs_in ''policy_1001'' q"
    using that by (simp add: retrieve_mock str_in_iff_occurs)
  have key: "map_of MOCK_POLICY_DATA ''policy_1001'' = Some jane_doe"
    by (simp add: MOCK_POLICY_DATA_def)
  have empty: "retrieve_policy_info MOCK_POLICY_DATA [] = []"
    by (simp add: retrieve_mock lower_def)
  have none: "retrieve_policy_info store q = []"
    if "\<forall>(identifier, record) \<in> set store.
          \<not> occurs_in identifier q
          \<and> \<not> occurs_in (lower (customer_name record)) (lower q)"
    using that by (auto simp: spec retrieve_spec_def filter_empty_conv)
  from spec first key empty none show ?thesis by blast
qed

theorem retrieve_policy_info_meets_spec_witness:
  "occurs_in ''policy_1001'' ''Premium for policy_1001 please''
   \<and> (\<exists>rest. retrieve_policy_info MOCK_POLICY_DATA ''Premium for policy_1001 please''
         = jane_doe # rest)
   \<and> retrieve_policy_info MOCK_POLICY_DATA ''nonexistent'' = []"
proof -
  have h1: "occurs_in ''policy_1001'' ''Premium for policy_1001 please''"
    unfolding str_in_iff_occurs [symmetric] by code_simp
  have "str_in k ''nonexistent'' = False
        \<and> str_in (lower (customer_name r)) (lower ''nonexistent'') = False"
    if "(k, r) \<in> set MOCK_POLICY_DATA" for k r
  proof -
    from that have "(k, r) = (''policy_1001'', jane_doe)
        \<or> (k, r) = (''policy_1002'', john_smith)"
      by (simp add: MOCK_POLICY_DATA_def)
    moreover have "str_in ''policy_1001'' ''nonexistent'' = False" by code_simp
    moreover have "str_in ''policy_1002'' ''nonexistent'' = False" by code_simp
    moreover have "str_in (lower (customer_name jane_doe)) (lower ''nonexistent'') = False"
      by code_simp
    moreover have "str_in (lower (customer_name john_smith)) (lower ''nonexistent'') = False"
      by code_simp
    ultimately show ?thesis by auto
  qed
  then have h2: "\<forall>(identifier, record) \<in> set MOCK_POLICY_DATA.
          \<not> occurs_in identifier ''nonexistent''
          \<and> \<not> occurs_in (lower (customer_name record)) (lower ''nonexistent'')"
    by (auto simp: str_in_iff_occurs)
  from retrieve_policy_info_meets_spec [of MOCK_POLICY_DATA "''Premium for policy_1001 please''"]
    retrieve_policy_info_meets_spec [of MOCK_POLICY_DATA "''nonexistent''"] h1 h2
  show ?thesis by blast
qed

text \<open>
  C2. For every input string \<open>q\<close>, retrieval followed by response generation on
  the two-record store raises no exception and yields a string; and for every record
  that retrieval returns, the reverse lookup finds at least one identifier, so that
  indexing its result with \<open>[0]\<close> does not fail.
\<close>

theorem pipeline_total:
  "(\<exists>response. generate_response MOCK_POLICY_DATA q
        (retrieve_policy_info MOCK_POLICY_DATA q) = Inr response)
   \<and> (\<forall>policy \<in> set (retrieve_policy_info MOCK_POLICY_DATA q).
         \<exists>policy_id ids. matching_ids MOCK_POLICY_DATA policy = policy_id # ids)"
proof
  show "\<exists>response. generate_response MOCK_POLICY_DATA q
        (retrieve_policy_info MOCK_POLICY_DATA q) = Inr response"
  proof (cases "retrieve_policy_info MOCK_POLICY_DATA q")
    case Nil
    then show ?thesis by (simp add: generate_response_Nil)
  next
    case (Cons policy others)
    then have "policy \<in> snd ` set MOCK_POLICY_DATA"
      using retrieve_subset [of MOCK_POLICY_DATA q] by auto
    then obtain k where "(k, policy) \<in> set MOCK_POLICY_DATA" "policy_eq policy policy"
      by (rule mock_cases)
    then show ?thesis by (simp add: Cons generate_response_mock)
  qed
next
  show "\<forall>policy \<in> set (retrieve_policy_info MOCK_POLICY_DATA q).
         \<exists>policy_id ids. matching_ids MOCK_POLICY_DATA policy = policy_id # ids"
  proof
    fix policy
    assume "policy \<in> set (retrieve_policy_info MOCK_POLICY_DATA q)"
    then have "policy \<in> snd ` set MOCK_POLICY_DATA"
      using retrieve_subset [of MOCK_POLICY_DATA q] by auto
    then obtain k where "(k, policy) \<in> set MOCK_POLICY_DATA" "policy_eq policy policy"
      by (rule mock_cases)
    then show "\<exists>policy_id ids. matching_ids MOCK_POLICY_DATA policy = policy_id # ids"
      by (simp add: matching_ids_mock)
  qed
qed

theorem pipeline_total_witness:
  "retrieve_policy_info MOCK_POLICY_DATA ''Jane Doe premium'' = [jane_doe]
   \<and> (\<exists>policy_id ids. matching_ids MOCK_POLICY_DATA jane_doe = policy_id # ids)
   \<and> (\<exists>response. generate_response MOCK_POLICY_DATA ''Jane Doe premium''
         (retrieve_policy_info MOCK_POLICY_DATA ''Jane Doe premium'') = Inr response)"
proof -
  have r: "retrieve_policy_info MOCK_POLICY_DATA ''Jane Doe premium'' = [jane_doe]"
    by code_simp
  from pipeline_total [of "''Jane Doe premium''"] r show ?thesis by simp
qed

text \<open>
  C3, as stated for every non-empty \<open>matches\<close>, does not hold: when the first
  element equals no record of the store, \<open>generate_response\<close> raises at the reverse
  lookup, before any keyword is tested. The query below lowercases to a string that
  contains \<open>coverage\<close>, and the result is \<open>IndexError\<close>, not a coverage listing.
\<close>

theorem response_priority_counterexample:
  "str_in ''coverage'' (lower ''what premium covers coverage'')
   \<and> generate_response MOCK_POLICY_DATA ''what premium covers coverage'' [unknown_policy]
       = Inl IndexError"
  by code_simp

text \<open>
  C3, amended. For every query \<open>q\<close> and every non-empty \<open>matches\<close> whose first
  element is equal (\<open>==\<close>) to the record stored under some key \<open>k\<close> of the store,
  the response is chosen by testing the lowercased \<open>q\<close> for \<open>coverage\<close>, then
  \<open>premium\<close>, then \<open>deductible\<close>, else the fallback, the first hit deciding. In
  particular a \<open>q\<close> whose lowercasing contains \<open>coverage\<close> yields the coverage
  listing, whatever else it contains, and not the premium sentence.
\<close>

theorem response_priority:
  assumes "(k, v) \<in> set MOCK_POLICY_DATA" and "policy_eq v policy"
  shows "generate_response MOCK_POLICY_DATA q (policy # others) =
           Inr (if str_in ''coverage'' (lower q) then coverage_response k policy
                else if str_in ''premium'' (lower q) then premium_response k policy
                else if str_in ''deductible'' (lower q) then deductible_response k policy
                else fallback_response k policy)
         \<and> (str_in ''coverage'' (lower q) \<longrightarrow>
              generate_response MOCK_POLICY_DATA q (policy # others)
                = Inr (coverage_response k policy)
              \<and> generate_response MOCK_POLICY_DATA q (policy # others)
                \<noteq> Inr (premium_response k policy))"
  using coverage_not_premium [of k policy k policy]
  by (simp add: generate_response_mock [OF assms] response_text_def)

theorem response_priority_witness:
  "(''policy_1001'', jane_doe) \<in> set MOCK_POLICY_DATA
   \<and> policy_eq jane_doe jane_doe
   \<and> str_in ''coverage'' (lower ''what premium covers coverage'')
   \<and> str_in ''premium'' (lower ''what premium covers coverage'')
   \<and> generate_response MOCK_POLICY_DATA ''what premium covers coverage''
        [jane_doe, john_smith] = Inr (coverage_response ''policy_1001'' jane_doe)
   \<and> generate_response MOCK_POLICY_DATA ''what premium covers coverage''
        [jane_doe, john_smith] \<noteq> Inr (premium_response ''policy_1001'' jane_doe)"
proof -
  have h1: "(''policy_1001'', jane_doe) \<in> set MOCK_POLICY_DATA"
    by (simp add: MOCK_POLICY_DATA_def)
  have h2: "policy_eq jane_doe jane_doe"
    by code_simp
  have h3: "str_in ''coverage'' (lower ''what premium covers coverage'')"
    by code_simp
  have h4: "str_in ''premium'' (lower ''what premium covers coverage'')"
    by code_simp
  from response_priority [OF h1 h2, of "''what premium covers coverage''" "[john_smith]"]
    h1 h2 h3 h4
  show ?thesis by blast
qed



text \<open>
  C5. For every query \<open>q\<close> and every non-empty \<open>matches\<close> whose elements are
  records of the store, the response to \<open>matches\<close> is the response to the
  one-element list of its first element, and it is a string.
\<close>

theorem first_match_only:
  assumes "set (policy # others) \<subseteq> snd ` set MOCK_POLICY_DATA"
  shows "generate_response MOCK_POLICY_DATA q (policy # others)
           = generate_response MOCK_POLICY_DATA q [policy]
         \<and> (\<exists>response. generate_response MOCK_POLICY_DATA q [policy] = Inr response)"
proof -
  from assms have "policy \<in> snd ` set MOCK_POLICY_DATA" by simp
  then obtain k where "(k, policy) \<in> set MOCK_POLICY_DATA" "policy_eq policy policy"
    by (rule mock_cases)
  then show ?thesis by (simp add: generate_response_mock)
qed

theorem first_match_only_witness:
  "set [jane_doe, john_smith] \<subseteq> snd ` set MOCK_POLICY_DATA
   \<and> generate_response MOCK_POLICY_DATA ''deductible?'' [jane_doe, john_smith]
       = generate_response MOCK_POLICY_DATA ''deductible?'' [jane_doe]
   \<and> generate_response MOCK_POLICY_DATA ''deductible?'' [jane_doe]
       = Inr ''The deductible for Jane Doe's policy (Policy ID: policy_1001) is $500.''"
proof -
  have h: "set [jane_doe, john_smith] \<subseteq> snd ` set MOCK_POLICY_DATA"
    by (simp add: set_mock)
  have e: "generate_response MOCK_POLICY_DATA ''deductible?'' [jane_doe]
       = Inr ''The deductible for Jane Doe's policy (Policy ID: policy_1001) is $500.''"
    by code_simp
  from first_match_only [OF h, of "''deductible?''"] h e show ?thesis by simp
qed

text \<open>
  C6. Retrieval that carries (identifier, record) pairs returns the records of
  \<open>retrieve_policy_info\<close> with their keys. Whenever it returns a first pair
  \<open>(identifier, record)\<close> on the two-record store, the reverse lookup of \<open>record\<close>
  yields exactly \<open>identifier\<close>, and the response names that identifier. Hence the
  response of the pipeline equals the response computed from the pairs, for every
  query.
\<close>

theorem reverse_lookup_recovers_identifier:
  "map snd (retrieve_pairs store q) = retrieve_policy_info store q
   \<and> (retrieve_pairs MOCK_POLICY_DATA q = (identifier, record) # others \<longrightarrow>
        matching_ids MOCK_POLICY_DATA record = [identifier]
        \<and> generate_response MOCK_POLICY_DATA q (retrieve_policy_info MOCK_POLICY_DATA q)
            = Inr (response_text q identifier record))
   \<and> generate_response MOCK_POLICY_DATA q (retrieve_policy_info MOCK_POLICY_DATA q)
       = Inr (respond_pairs q (retrieve_pairs MOCK_POLICY_DATA q))"
proof -
  let ?pairs = "retrieve_pairs MOCK_POLICY_DATA q"
  have snd_pairs: "retrieve_policy_info MOCK_POLICY_DATA q = map snd ?pairs"
    by (simp add: retrieve_pairs_snd)
  have first: "matching_ids MOCK_POLICY_DATA r = [i]
        \<and> generate_response MOCK_POLICY_DATA q (retrieve_policy_info MOCK_POLICY_DATA q)
            = Inr (response_text q i r)"
    if "?pairs = (i, r) # rest" for i r rest
  proof -
    from that have "(i, r) \<in> set MOCK_POLICY_DATA"
      using retrieve_pairs_subset [of MOCK_POLICY_DATA q] by auto
    moreover from this have "policy_eq r r"
      using policy_eq_jane policy_eq_john by (auto simp: MOCK_POLICY_DATA_def)
    ultimately show ?thesis
      by (simp add: snd_pairs that generate_response_mock matching_ids_mock)
  qed
  have same: "generate_response MOCK_POLICY_DATA q (retrieve_policy_info MOCK_POLICY_DATA q)
       = Inr (respond_pairs q ?pairs)"
  proof (cases ?pairs)
    case Nil
    then show ?thesis
      by (simp add: snd_pairs generate_response_Nil respond_pairs_def)
  next
    case (Cons p rest)
    obtain i r where "p = (i, r)" by (cases p)
    with Cons first [of i r rest] show ?thesis
      by (simp add: respond_pairs_def)
  qed
  from first same show ?thesis by (simp add: retrieve_pairs_snd)
qed

theorem reverse_lookup_recovers_identifier_witness:
  "retrieve_pairs MOCK_POLICY_DATA ''premium for John Smith'' = [(''policy_1002'', john_smith)]
   \<and> matching_ids MOCK_POLICY_DATA john_smith = [''policy_1002'']
   \<and> generate_response MOCK_POLICY_DATA ''premium for John Smith''
        (retrieve_policy_info MOCK_POLICY_DATA ''premium for John Smith'')
       = Inr (response_text ''premium for John Smith'' ''policy_1002'' john_smith)"
proof -
  have h: "retrieve_pairs MOCK_POLICY_DATA ''premium for John Smith''
             = (''policy_1002'', john_smith) # []"
    by code_simp
  from reverse_lookup_recovers_identifier
         [of MOCK_POLICY_DATA "''premium for John Smith''" "''policy_1002''" john_smith "[]"] h
  show ?thesis by simp
qed

text \<open>
  C7. Run on the heap, retrieval makes a new list object and appends to it, and
  response generation makes new lists of strings; nothing else is written. So for
  every query: a second call of retrieval, in the heap the first call leaves,
  returns a list with the same references in the same order, hence the same records,
  and leaves the list of the first call as it was; the records it returns are those
  of \<open>retrieve_policy_info\<close> on the store, and its references are references to the
  store's own dicts. After a call of either function the dict bound to
  \<open>MOCK_POLICY_DATA\<close> and every policy dict with all its fields are what they were
  before, and the response is that of \<open>generate_response\<close> on the store.
\<close>

theorem store_not_mutated:
  assumes "retrieve_policy_info_heap q h = (r1, h1)"
    and "retrieve_policy_info_heap q h1 = (r2, h2)"
    and "generate_response_heap q' c g = (result, g')"
  shows "ref_lists h2 r2 = ref_lists h1 r1
       \<and> ref_lists h2 r1 = ref_lists h1 r1
       \<and> records_of h2 r2 = records_of h1 r1
       \<and> records_of h1 r1 = retrieve_policy_info (store_of h) q
       \<and> set (ref_lists h1 r1) \<subseteq> snd ` set (policy_data h)
       \<and> policy_data h1 = policy_data h \<and> policies h1 = policies h
       \<and> store_of h1 = store_of h
       \<and> policy_data g' = policy_data g \<and> policies g' = policies g
       \<and> store_of g' = store_of g
       \<and> result = generate_response (store_of g) q' (records_of g c)"
proof -
  note first = retrieve_policy_info_heap_result [OF assms(1)]
  note second = retrieve_policy_info_heap_result [OF assms(2)]
  note resp = generate_response_heap_fields [OF assms(3)]
  have l1: "ref_lists h1 r1 = matched_refs q h (policy_data h)"
    unfolding first(1) first(6) by simp
  have same: "matched_refs q h1 (policy_data h1) = matched_refs q h (policy_data h)"
    unfolding first(3) by (rule matched_refs_cong) (rule first(4))
  have l2: "ref_lists h2 r2 = matched_refs q h (policy_data h)"
    unfolding second(1) second(6) same by simp
  have l3: "ref_lists h2 r1 = ref_lists h1 r1"
    unfolding second(6) first(1) first(2) by simp
  have p2: "policies h2 = policies h1"
    by (rule second(4))
  have c1: "ref_lists h2 r2 = ref_lists h1 r1"
    unfolding l1 l2 ..
  have c3: "records_of h2 r2 = records_of h1 r1"
    unfolding records_of_def c1 p2 ..
  have c4: "records_of h1 r1 = retrieve_policy_info (store_of h) q"
    unfolding records_of_def l1 first(4) store_of_def by (rule matched_refs_records)
  have c5: "set (ref_lists h1 r1) \<subseteq> snd ` set (policy_data h)"
    unfolding l1 by (rule matched_refs_subset)
  have c8: "store_of h1 = store_of h"
    unfolding store_of_def first(3) first(4) ..
  have c11: "store_of g' = store_of g"
    unfolding store_of_def resp(1) resp(2) ..
  have c12: "result = generate_response (store_of g) q' (records_of g c)"
    using generate_response_heap_result [of q' c g] unfolding assms(3) by simp
  from c1 l3 c3 c4 c5 first(3) first(4) c8 resp(1) resp(2) c11 c12
  show ?thesis by (intro conjI)
qed

theorem store_not_mutated_witness:
  "records_of (snd (retrieve_policy_info_heap ''premium for Jane Doe'' initial_heap))
     (fst (retrieve_policy_info_heap ''premium for Jane Doe'' initial_heap)) = [jane_doe]
   \<and> records_of
        (snd (retrieve_policy_info_heap ''premium for Jane Doe''
          (snd (retrieve_policy_info_heap ''premium for Jane Doe'' initial_heap))))
        (fst (retrieve_policy_info_heap ''premium for Jane Doe''
          (snd (retrieve_policy_info_heap ''premium for Jane Doe'' initial_heap))))
      = [jane_doe]
   \<and> store_of (snd (retrieve_policy_info_heap ''premium for Jane Doe'' initial_heap))
      = MOCK_POLICY_DATA
   \<and> fst (generate_response_heap ''premium for Jane Doe''
          (fst (retrieve_policy_info_heap ''premium for Jane Doe'' initial_heap))
          (snd (retrieve_policy_info_heap ''premium for Jane Doe'' initial_heap)))
      = Inr ''The monthly premium for Jane Doe's policy (Policy ID: policy_1001) is $120/month.''
   \<and> store_of (snd (generate_response_heap ''premium for Jane Doe''
          (fst (retrieve_policy_info_heap ''premium for Jane Doe'' initial_heap))
          (snd (retrieve_policy_info_heap ''premium for Jane Doe'' initial_heap))))
      = MOCK_POLICY_DATA"
proof -
  let ?q = "''premium for Jane Doe''"
  let ?R1 = "retrieve_policy_info_heap ?q initial_heap"
  let ?R2 = "retrieve_policy_info_heap ?q (snd ?R1)"
  let ?G = "generate_response_heap ?q (fst ?R1) (snd ?R1)"
  have a1: "?R1 = (fst ?R1, snd ?R1)" by (rule prod.collapse [symmetric])
  have a2: "?R2 = (fst ?R2, snd ?R2)" by (rule prod.collapse [symmetric])
  have a3: "?G = (fst ?G, snd ?G)" by (rule prod.collapse [symmetric])
  have e1: "retrieve_policy_info MOCK_POLICY_DATA ?q = [jane_doe]"
    by code_simp
  have e2: "generate_response MOCK_POLICY_DATA ?q [jane_doe]
      = Inr ''The monthly premium for Jane Doe's policy (Policy ID: policy_1001) is $120/month.''"
    by code_simp
  note w = store_not_mutated [OF a1 a2 a3]
  from w have "records_of (snd ?R1) (fst ?R1) = retrieve_policy_info (store_of initial_heap) ?q"
    by blast
  then have r1: "records_of (snd ?R1) (fst ?R1) = [jane_doe]"
    unfolding store_of_initial_heap e1 .
  from w have "records_of (snd ?R2) (fst ?R2) = records_of (snd ?R1) (fst ?R1)"
    by blast
  then have r2: "records_of (snd ?R2) (fst ?R2) = [jane_doe]"
    unfolding r1 .
  from w have "store_of (snd ?R1) = store_of initial_heap"
    by blast
  then have s1: "store_of (snd ?R1) = MOCK_POLICY_DATA"
    unfolding store_of_initial_heap .
  from w have "fst ?G = generate_response (store_of (snd ?R1)) ?q (records_of (snd ?R1) (fst ?R1))"
    by blast
  then have g: "fst ?G
      = Inr ''The monthly premium for Jane Doe's policy (Policy ID: policy_1001) is $120/month.''"
    unfolding s1 r1 e2 .
  from w have "store_of (snd ?G) = store_of (snd ?R1)"
    by blast
  then have s2: "store_of (snd ?G) = MOCK_POLICY_DATA"
    unfolding s1 .
  from r1 r2 s1 g s2 show ?thesis by (intro conjI)
qed

text \<open>
  C8. The response to \<open>What is the coverage for Jane Doe?\<close> with Jane Doe's record
  is the header line naming \<open>Jane Doe\<close> and \<open>policy_1001\<close>, an empty line, and one
  line \<open>- <Category In Title Case>: <value>\<close> per coverage entry, in the order of
  the coverage dict: Collision, Comprehensive, Roadside Assistance.
\<close>

theorem coverage_for_jane_doe:
  "generate_response MOCK_POLICY_DATA ''What is the coverage for Jane Doe?'' [jane_doe] =
     Inr (''Hello, the policy details for Jane Doe (Policy ID: policy_1001) ''
          @ ''indicate the following coverage:\<newline>''
          @ ''\<newline>''
          @ ''- Collision: Up to $50,000\<newline>''
          @ ''- Comprehensive: Up to $25,000\<newline>''
          @ ''- Roadside Assistance: Included'')
   \<and> map coverage_line (coverage jane_doe) =
       [''- Collision: Up to $50,000'',
        ''- Comprehensive: Up to $25,000'',
        ''- Roadside Assistance: Included'']
   \<and> str_in ''Jane Doe'' (coverage_response ''policy_1001'' jane_doe)
   \<and> str_in ''policy_1001'' (coverage_response ''policy_1001'' jane_doe)"
  by code_simp

text \<open>
  C9. The response to \<open>premium for policy_1002\<close> with John Smith's record is the
  premium sentence: one line that contains \<open>$85/month\<close>, \<open>policy_1002\<close> and
  \<open>John Smith\<close>.
\<close>

theorem premium_for_policy_1002:
  "generate_response MOCK_POLICY_DATA ''premium for policy_1002'' [john_smith] =
     Inr ''The monthly premium for John Smith's policy (Policy ID: policy_1002) is $85/month.''
   \<and> generate_response MOCK_POLICY_DATA ''premium for policy_1002'' [john_smith] =
       Inr (premium_response ''policy_1002'' john_smith)
   \<and> str_in ''$85/month'' (premium_response ''policy_1002'' john_smith)
   \<and> str_in ''policy_1002'' (premium_response ''policy_1002'' john_smith)
   \<and> str_in ''John Smith'' (premium_response ''policy_1002'' john_smith)
   \<and> CHR 0x0A \<notin> set (premium_response ''policy_1002'' john_smith)"
  by code_simp

text \<open>
  C10. \<open>generate_response\<close> is not total on arbitrary match lists: no record of the
  store equals \<open>unknown_policy\<close>, and with it as first element the result is
  \<open>IndexError\<close> for every query. On a non-empty list the function raises exactly
  when the reverse lookup of the first element is empty, that is when no record of
  the store equals it; when some record does, the result is a string. Every record
  that retrieval returns is a record of the store.
\<close>

theorem generate_response_partial:
  "matching_ids MOCK_POLICY_DATA unknown_policy = []
   \<and> generate_response MOCK_POLICY_DATA q (unknown_policy # others) = Inl IndexError
   \<and> (generate_response MOCK_POLICY_DATA q (policy # others) = Inl IndexError)
       = (matching_ids MOCK_POLICY_DATA policy = [])
   \<and> (matching_ids MOCK_POLICY_DATA policy = [])
       = (\<forall>(k, v) \<in> set MOCK_POLICY_DATA. \<not> policy_eq v policy)
   \<and> ((k, v) \<in> set MOCK_POLICY_DATA \<and> policy_eq v policy \<longrightarrow>
        (\<exists>response. generate_response MOCK_POLICY_DATA q (policy # others) = Inr response))
   \<and> (\<forall>policy \<in> set (retrieve_policy_info MOCK_POLICY_DATA q).
         \<exists>k. (k, policy) \<in> set MOCK_POLICY_DATA \<and> policy_eq policy policy)"
proof -
  have raise: "(generate_response MOCK_POLICY_DATA q (policy # others) = Inl IndexError)
       = (matching_ids MOCK_POLICY_DATA policy = [])" for policy
    by (simp add: generate_response_Cons split: list.splits)
  have ok: "\<exists>response. generate_response MOCK_POLICY_DATA q (policy # others) = Inr response"
    if "(k, v) \<in> set MOCK_POLICY_DATA" "policy_eq v policy"
    using that by (simp add: generate_response_mock)
  have retrieved: "\<exists>k. (k, policy) \<in> set MOCK_POLICY_DATA \<and> policy_eq policy policy"
    if "policy \<in> set (retrieve_policy_info MOCK_POLICY_DATA q)" for policy
  proof -
    from that have "policy \<in> snd ` set MOCK_POLICY_DATA"
      using retrieve_subset [of MOCK_POLICY_DATA q] by auto
    then show ?thesis by (rule mock_cases) blast
  qed
  from raise [of unknown_policy] raise [of policy] ok retrieved
    matching_ids_unknown matching_ids_empty_iff [of MOCK_POLICY_DATA policy]
  show ?thesis by blast
qed

theorem generate_response_partial_witness:
  "(''policy_1002'', john_smith) \<in> set MOCK_POLICY_DATA
   \<and> policy_eq john_smith john_smith
   \<and> (\<exists>response. generate_response MOCK_POLICY_DATA ''hello'' [john_smith] = Inr response)
   \<and> generate_response MOCK_POLICY_DATA ''hello'' [unknown_policy] = Inl IndexError"
proof -
  have h1: "(''policy_1002'', john_smith) \<in> set MOCK_POLICY_DATA"
    by (simp add: MOCK_POLICY_DATA_def)
  have h2: "policy_eq john_smith john_smith"
    by code_simp
  from generate_response_partial
         [of "''hello''" "[]" john_smith "''policy_1002''" john_smith] h1 h2
  show ?thesis by blast
qed

end
